theory Spec2Isabelle
  imports Complex_Main
begin

section \<open>Data model of the digitizing page\<close>

text \<open>
  The page keeps its state in Leaflet objects and in a few variables of \<open>setup_map\<close>.
  The model makes that state explicit. Numbers are JavaScript doubles in the source; they
  are modelled as real numbers, so the rounding of doubles is not part of the model. Leaflet itself is
  not part of the repository: a polyline is modelled by the fields the source reads and
  writes (\<open>_latlngs\<close>, \<open>properties\<close>, \<open>issue_markers\<close>, its colour), the
  map by the ids of the layers it shows, and the feature group \<open>drawn_items\<close> by the
  list of its layers in insertion order. Popups, the dash style set by a timer and
  \<open>console.log\<close> are left out.
\<close>

record latlng =
  lat :: real
  lng :: real

text \<open>An issue stands for the text \<open>Line contains an overhang (vertex i)\<close>.\<close>

datatype issue = Overhang nat

text \<open>A value that may be \<open>undefined\<close>, \<open>null\<close> or a string (difficulty, comment).\<close>

datatype jsval = Undefined | Null | Str string

text \<open>
  \<open>layer.properties\<close>: every field may be missing. For \<open>kind\<close> and \<open>name\<close>,
  \<open>None\<close> stands for both \<open>undefined\<close> and \<open>null\<close>, which the source's
  \<open>== undefined\<close> does not tell apart.
\<close>

record props =
  kind :: "string option"
  color :: "string option"
  name :: "string option"
  issues :: "issue list option"

record class_props =
  cname :: string
  ccolor :: string
  ckey :: string

text \<open>
  A coordinate of a document as JSON carries it: a number or \<open>null\<close>.
\<close>

datatype jnum = Num real | JNull

text \<open>
  A GeoJSON geometry: a line string with its \<open>[x, y]\<close> pairs, or any other type.
\<close>

datatype geometry = LineString "(jnum \<times> real) list" | OtherGeometry string

record feature_geojson =
  geometry :: geometry
  feature_properties :: "props option"

text \<open>
  The fields a document and the radargram's metadata share, then each of the two.
\<close>

record header =
  radar_key :: string
  width :: real
  height :: real
  difficulty :: jsval
  comment :: jsval

record meta = header +
  xscale :: real

record document = header +
  date_modified :: string
  features :: "feature_geojson list"

record marker =
  marker_id :: nat
  marker_pos :: latlng

record layer =
  lid :: nat
  latlngs :: "latlng list"
  properties :: "props option"
  issue_markers :: "marker list"
  style_color :: string

datatype feedback = Success | Error

text \<open>
  The texts \<open>user_message\<close> is called with, one constructor per call site:
  \<^item> \<open>NotLoggedIn\<close>: "Not logged in! Please save the data, log in, and try again."
  \<^item> \<open>ServerMessage m\<close>: \<open>result.message\<close> of the server's reply, possibly undefined
  \<^item> \<open>ErrorSubmitting\<close>: "An erorr occurred submitting!"
  \<^item> \<open>LoadMismatch k\<close>: "Error loading data: k (..) does not align with expected k (..)"
  \<^item> \<open>SkippedFeature\<close>: "Skipped loading of one feature as it was the wrong type"
  \<^item> \<open>Loaded n\<close>: "Loaded n line(s)"
  \<^item> \<open>ErrorParsing\<close>: "Error parsing data. Please check your file"
  \<^item> \<open>ChooseDifficulty\<close>: "Please choose a difficulty before submitting"
  \<^item> \<open>ProjectEmpty\<close>: "Submit failed: project is empty"
  \<^item> \<open>UnfixedIssues n\<close>: "Submit failed: n line(s) have unfixed issues. ..."
\<close>

datatype user_msg =
    NotLoggedIn
  | ServerMessage "string option"
  | ErrorSubmitting
  | LoadMismatch string
  | SkippedFeature
  | Loaded nat
  | ErrorParsing
  | ChooseDifficulty
  | ProjectEmpty
  | UnfixedIssues nat

text \<open>A JavaScript exception. The source only ever meets \<open>TypeError\<close>.\<close>

datatype error = TypeError

text \<open>
  The session: the next Leaflet id, the ids of the layers on the map, the layers of
  \<open>drawn_items\<close>, the metadata, the flag \<open>data_saved\<close>, the calls of
  \<open>user_message\<close> and of \<open>alert\<close> in order, and the bodies posted to
  \<open>/submit-digitized\<close>.
\<close>

record session =
  next_id :: nat
  on_map :: "nat list"
  drawn_items :: "layer list"
  meta :: meta
  data_saved :: bool
  messages :: "(user_msg \<times> feedback option) list"
  alerts :: "issue list list"
  posted :: "document list"

section \<open>The classification registry\<close>

definition get_layer_classes :: "(string \<times> class_props) list" where
  "get_layer_classes =
     [(''firn_ice_interface'',
         \<lparr>cname = ''Firn-ice interface'', ccolor = ''#002EBD'', ckey = ''firn_ice_interface''\<rparr>),
      (''water_table'',
         \<lparr>cname = ''Water table'', ccolor = ''#CE00FF'', ckey = ''water_table''\<rparr>),
      (''crevasse'',
         \<lparr>cname = ''Crevasse'', ccolor = ''#62F700'', ckey = ''crevasse''\<rparr>),
      (''hyperbola'',
         \<lparr>cname = ''Hyperbola'', ccolor = ''red'', ckey = ''hyperbola''\<rparr>)]"

text \<open>
  \<open>classes[kind]\<close>: the entry of an own key, \<open>undefined\<close> otherwise (also for the
  key \<open>undefined\<close>). Properties inherited from \<open>Object.prototype\<close> are not modelled.
\<close>

definition class_lookup :: "string option \<Rightarrow> class_props option" where
  "class_lookup k = (case k of None \<Rightarrow> None | Some s \<Rightarrow> map_of get_layer_classes s)"

section \<open>Validation\<close>

definition user_message :: "user_msg \<Rightarrow> feedback option \<Rightarrow> session \<Rightarrow> session" where
  "user_message m f s = s\<lparr>messages := messages s @ [(m, f)]\<rparr>"

text \<open>
  The loop of \<open>validate_polyline\<close> over \<open>i = 1, 2, ...\<close>: the list starts at vertex
  \<open>i - 1\<close>. It yields, for every flagged \<open>i\<close>, the index and the position of vertex
  \<open>i - 1\<close>, where the red circle is drawn.
\<close>

fun overhangs :: "bool \<Rightarrow> nat \<Rightarrow> latlng list \<Rightarrow> (nat \<times> latlng) list" where
  "overhangs increasing i (a # b # rest) =
     (if (increasing \<and> lng b \<le> lng a) \<or> (\<not> increasing \<and> lng b \<ge> lng a)
      then (i, a) # overhangs increasing (Suc i) (b # rest)
      else overhangs increasing (Suc i) (b # rest))"
| "overhangs increasing i rest = []"

fun new_markers :: "nat \<Rightarrow> (nat \<times> latlng) list \<Rightarrow> marker list" where
  "new_markers n [] = []"
| "new_markers n ((i, p) # rest) = \<lparr>marker_id = n, marker_pos = p\<rparr> # new_markers (Suc n) rest"

definition validate_polyline ::
  "layer \<Rightarrow> bool \<Rightarrow> session \<Rightarrow> issue list \<times> layer \<times> session" where
  "validate_polyline polyline skip_alert s =
     (let s1 = s\<lparr>on_map := filter (\<lambda>k. k \<notin> set (map marker_id (issue_markers polyline)))
                                  (on_map s)\<rparr>;
          l1 = polyline\<lparr>issue_markers := []\<rparr>;
          ps = latlngs polyline
      in if length ps < 2 then ([], l1, s1)
         else
           let increasing = lng (hd ps) < lng (last ps);
               found = overhangs increasing 1 ps;
               ms = new_markers (next_id s1) found;
               found_issues = map (\<lambda>(i, p). Overhang i) found;
               s2 = s1\<lparr>next_id := next_id s1 + length ms,
                       on_map := on_map s1 @ map marker_id ms\<rparr>;
               s3 = (if found_issues \<noteq> [] \<and> \<not> skip_alert
                     then s2\<lparr>alerts := alerts s2 @ [found_issues]\<rparr> else s2)
           in (found_issues, l1\<lparr>issue_markers := ms\<rparr>, s3))"

section \<open>Classifying and creating lines\<close>

text \<open>
  \<open>change_layer_kind\<close> writes \<open>properties.kind\<close> before it reads
  \<open>class_props.color\<close>; that read throws when the kind is no key of the registry.
  The result is the exception, if any, and the layer as the call leaves it.
\<close>

definition change_layer_kind :: "layer \<Rightarrow> string option \<Rightarrow> error option \<times> layer" where
  "change_layer_kind l new_kind =
     (let p0 = (case properties l of
                  None \<Rightarrow> \<lparr>kind = None, color = None, name = None, issues = None\<rparr>
                | Some p \<Rightarrow> p);
          p1 = p0\<lparr>kind := new_kind\<rparr>
      in case class_lookup new_kind of
           None \<Rightarrow> (Some TypeError, l\<lparr>properties := Some p1\<rparr>)
         | Some c \<Rightarrow>
             (None, l\<lparr>properties := Some (p1\<lparr>color := Some (ccolor c), name := Some (cname c)\<rparr>),
                      style_color := ccolor c\<rparr>))"

definition add_polyline_metadata ::
  "layer \<Rightarrow> string option \<Rightarrow> session \<Rightarrow> error option \<times> layer \<times> session" where
  "add_polyline_metadata l k s =
     (case change_layer_kind l k of
        (Some e, l1) \<Rightarrow> (Some e, l1, s)
      | (None, l1) \<Rightarrow>
          (case validate_polyline l1 False s of
             (found, l2, s1) \<Rightarrow>
               (None,
                l2\<lparr>properties := map_option (\<lambda>p. p\<lparr>issues := Some found\<rparr>) (properties l2)\<rparr>,
                s1)))"

text \<open>
  \<open>map.addLayer\<close> and \<open>FeatureGroup.addLayer\<close> do nothing for a layer that is
  already there.
\<close>

definition map_addLayer :: "nat \<Rightarrow> nat list \<Rightarrow> nat list" where
  "map_addLayer k ks = (if k \<in> set ks then ks else ks @ [k])"

definition group_addLayer :: "layer \<Rightarrow> layer list \<Rightarrow> layer list" where
  "group_addLayer l ls = (if lid l \<in> set (map lid ls) then ls else ls @ [l])"

definition create_polyline ::
  "latlng list \<Rightarrow> string option \<Rightarrow> session \<Rightarrow> (error + layer) \<times> session" where
  "create_polyline coords k s =
     (case class_lookup k of
        None \<Rightarrow> (Inl TypeError, s)
      | Some c \<Rightarrow>
          (let new_layer = \<lparr>lid = next_id s, latlngs = coords, properties = None,
                            issue_markers = [], style_color = ccolor c\<rparr>;
               s1 = s\<lparr>next_id := Suc (next_id s)\<rparr>
           in case add_polyline_metadata new_layer k s1 of
                (Some e, l1, s2) \<Rightarrow> (Inl e, s2)
              | (None, l1, s2) \<Rightarrow>
                  (Inr l1, s2\<lparr>on_map := map_addLayer (lid l1) (on_map s2),
                              drawn_items := group_addLayer l1 (drawn_items s2)\<rparr>)))"

section \<open>Splitting a line\<close>

text \<open>
  The body of \<open>forEach\<close> in \<open>split_polyline\<close> for pass \<open>i\<close>: a vertex beyond the cut
  is dropped, the first such vertex is replaced by the cut point, every other vertex is
  kept. The flag is \<open>done\<close>.
\<close>

fun split_coords :: "nat \<Rightarrow> real \<Rightarrow> real \<Rightarrow> bool \<Rightarrow> latlng list \<Rightarrow> latlng list" where
  "split_coords i x_coord y_coord done [] = []"
| "split_coords i x_coord y_coord done (pair # rest) =
     (if (i = 0 \<and> lng pair > x_coord) \<or> (i = 1 \<and> lng pair < x_coord)
      then (if \<not> done then [\<lparr>lat = y_coord, lng = x_coord\<rparr>] else [])
             @ split_coords i x_coord y_coord True rest
      else pair # split_coords i x_coord y_coord done rest)"

text \<open>
  The two passes create the children; then the parent is taken off the map with
  \<open>layer._map.removeLayer(layer)\<close>, which throws when the layer is on no map.
  \<open>layer.remove()\<close> finds the layer on no map any more and does nothing. In Leaflet
  the map and a feature group keep separate tables of layers: \<open>Map.removeLayer\<close>
  deletes from the map's table only, and a group loses a layer only through its own
  \<open>removeLayer\<close> or \<open>clearLayers\<close>, neither of which \<open>split_polyline\<close> calls.
  So \<open>drawn_items\<close> is changed by the two calls of \<open>create_polyline\<close> alone.
\<close>

definition split_polyline ::
  "layer \<Rightarrow> real \<Rightarrow> real \<Rightarrow> session \<Rightarrow> error option \<times> session" where
  "split_polyline l x_coord y_coord s =
     (case properties l of
        None \<Rightarrow> (Some TypeError, s)
      | Some p \<Rightarrow>
          (case create_polyline (split_coords 0 x_coord y_coord False (latlngs l)) (kind p) s of
             (Inl e, s1) \<Rightarrow> (Some e, s1)
           | (Inr c0, s1) \<Rightarrow>
               (case create_polyline (split_coords 1 x_coord y_coord False (latlngs l))
                       (kind p) s1 of
                  (Inl e, s2) \<Rightarrow> (Some e, s2)
                | (Inr c1, s2) \<Rightarrow>
                    (if lid l \<in> set (on_map s2)
                     then (None, s2\<lparr>on_map := removeAll (lid l) (on_map s2)\<rparr>)
                     else (Some TypeError, s2)))))"

section \<open>Saving and submitting\<close>

text \<open>
  \<open>coords[0] / meta["xscale"]\<close>. Division by zero gives \<open>Infinity\<close>,
  \<open>-Infinity\<close> or \<open>NaN\<close> in JavaScript; both callers pass the document on to
  \<open>JSON.stringify\<close>, which writes each of the three as \<open>null\<close>. The document is
  modelled as JSON carries it.
\<close>

definition js_div :: "real \<Rightarrow> real \<Rightarrow> jnum" where
  "js_div a b = (if b = 0 then JNull else Num (a / b))"

text \<open>
  \<open>layer.toGeoJSON()\<close> is Leaflet's. Called without a precision, it writes the line
  string of the layer's \<open>[lng, lat]\<close> pairs with every coordinate rounded to 6
  decimals by Leaflet's \<open>formatNum\<close>, which is
  \<open>Math.round(num * 1000000) / 1000000\<close>; \<open>Math.round(x)\<close> is the largest
  integer not above \<open>x + 0.5\<close>. The date is the current instant, a parameter here.
\<close>

definition formatNum :: "real \<Rightarrow> real" where
  "formatNum num = of_int \<lfloor>num * 1000000 + 1 / 2\<rfloor> / 1000000"

definition layer_geojson :: "layer \<Rightarrow> feature_geojson" where
  "layer_geojson l =
     \<lparr>geometry = LineString (map (\<lambda>p. (Num (formatNum (lng p)), formatNum (lat p))) (latlngs l)),
      feature_properties = properties l\<rparr>"

fun scale_coord :: "real \<Rightarrow> jnum \<times> real \<Rightarrow> jnum \<times> real" where
  "scale_coord sc (Num a, b) = (js_div a sc, b)"
| "scale_coord sc (JNull, b) = (js_div 0 sc, b)"

fun scale_feature :: "real \<Rightarrow> feature_geojson \<Rightarrow> feature_geojson" where
  "scale_feature sc f =
     (case geometry f of
        LineString cs \<Rightarrow> f\<lparr>geometry := LineString (map (scale_coord sc) cs)\<rparr>
      | OtherGeometry t \<Rightarrow> f)"

definition make_feature_save_json :: "string \<Rightarrow> layer list \<Rightarrow> meta \<Rightarrow> document" where
  "make_feature_save_json date ls m =
     (let fs = map layer_geojson ls;
          fs1 = (if xscale m \<noteq> 1 then map (scale_feature (xscale m)) fs else fs)
      in \<lparr>radar_key = radar_key m, width = width m, height = height m,
          difficulty = difficulty m,
          comment = (case comment m of Str c \<Rightarrow> (if c = [] then Null else Str c) | _ \<Rightarrow> Null),
          date_modified = date, features = fs1\<rparr>)"

text \<open>
  What comes back from \<open>fetch\<close>: the promise rejects, or there is a response with a
  status and a body. The body is no JSON, or JSON \<open>null\<close>, or another JSON value with
  its \<open>message\<close> property if it has one.
\<close>

datatype body = NotJson | JsonNull | JsonValue "string option"

datatype response = NetworkFailure | Response nat body

definition submit_digitized :: "document \<Rightarrow> response \<Rightarrow> session \<Rightarrow> session" where
  "submit_digitized d r s =
     (let s1 = s\<lparr>posted := posted s @ [d]\<rparr>
      in case r of
           NetworkFailure \<Rightarrow> user_message ErrorSubmitting (Some Error) s1
         | Response status b \<Rightarrow>
             (if status = 401 then user_message NotLoggedIn (Some Error) s1
              else case b of
                     NotJson \<Rightarrow> user_message ErrorSubmitting (Some Error) s1
                   | JsonNull \<Rightarrow> user_message ErrorSubmitting (Some Error) s1
                   | JsonValue m \<Rightarrow> user_message (ServerMessage m) (Some Success) s1))"

section \<open>Loading a document\<close>

text \<open>The first of \<open>radar_key\<close>, \<open>width\<close>, \<open>height\<close> that differs, if any.\<close>

definition mismatch :: "document \<Rightarrow> meta \<Rightarrow> string option" where
  "mismatch d m =
     (if radar_key d \<noteq> radar_key m then Some ''radar_key''
      else if width d \<noteq> width m then Some ''width''
      else if height d \<noteq> height m then Some ''height''
      else None)"

text \<open>The lookup by name, for a feature without kind: the first class of that name.\<close>

fun kind_by_name :: "string option \<Rightarrow> (string \<times> class_props) list \<Rightarrow> string option" where
  "kind_by_name n [] = None"
| "kind_by_name n ((k, c) # rest) = (if n = Some (cname c) then Some k else kind_by_name n rest)"

text \<open>\<open>pair[0] * meta["xscale"]\<close>: \<open>null\<close> counts as 0.\<close>

fun js_times :: "jnum \<Rightarrow> real \<Rightarrow> real" where
  "js_times (Num a) b = a * b"
| "js_times JNull b = 0 * b"

text \<open>
  \<open>clearLayers\<close> takes every layer of the group off the map and empties the group.
\<close>

definition clearLayers :: "session \<Rightarrow> session" where
  "clearLayers s =
     s\<lparr>on_map := filter (\<lambda>k. k \<notin> set (map lid (drawn_items s))) (on_map s),
       drawn_items := []\<rparr>"

text \<open>
  How the loop over the features ends: it runs to its end, or the \<open>return\<close> of the
  branch for another geometry leaves the function, or an exception reaches the
  \<open>catch\<close>.
\<close>

datatype loop_end = Completed | Returned | Caught error

fun load_features :: "feature_geojson list \<Rightarrow> session \<Rightarrow> loop_end \<times> session" where
  "load_features [] s = (Completed, s)"
| "load_features (f # fs) s =
     (case feature_properties f of
        None \<Rightarrow> (Caught TypeError, s)
      | Some p \<Rightarrow>
          (let k = (case kind p of
                      None \<Rightarrow> kind_by_name (name p) get_layer_classes
                    | Some k0 \<Rightarrow> Some k0)
           in case geometry f of
                LineString cs \<Rightarrow>
                  (case create_polyline
                          (map (\<lambda>(a, b). \<lparr>lat = b, lng = js_times a (xscale (meta s))\<rparr>) cs) k s of
                     (Inl e, s1) \<Rightarrow> (Caught e, s1)
                   | (Inr l, s1) \<Rightarrow>
                       load_features fs (s1\<lparr>drawn_items := group_addLayer l (drawn_items s1)\<rparr>))
              | OtherGeometry t \<Rightarrow> (Returned, user_message SkippedFeature (Some Error) s)))"

definition load_digitized_inner :: "document \<Rightarrow> session \<Rightarrow> session" where
  "load_digitized_inner d s =
     (case mismatch d (meta s) of
        Some k \<Rightarrow> user_message (LoadMismatch k) (Some Error) s
      | None \<Rightarrow>
          (let s1 = s\<lparr>meta := (meta s)\<lparr>comment := comment d, difficulty := difficulty d\<rparr>\<rparr>;
               s2 = (if length (drawn_items s1) > 0 then clearLayers s1 else s1)
           in case load_features (features d) s2 of
                (Completed, s3) \<Rightarrow> user_message (Loaded (length (drawn_items s3))) None s3
              | (Returned, s3) \<Rightarrow> s3
              | (Caught e, s3) \<Rightarrow> user_message ErrorParsing (Some Error) s3))"

section \<open>The submit button\<close>

text \<open>
  \<open>drawn_items.eachLayer\<close> of the handler: every layer is validated again, without
  alert, and the lines with issues are counted. The cached \<open>properties.issues\<close> are
  neither read nor written.
\<close>

fun validate_each :: "layer list \<Rightarrow> session \<Rightarrow> nat \<times> layer list \<times> session" where
  "validate_each [] s = (0, [], s)"
| "validate_each (l # ls) s =
     (case validate_polyline l True s of
        (found, l1, s1) \<Rightarrow>
          (case validate_each ls s1 of
             (n, ls1, s2) \<Rightarrow> ((if length found > 0 then 1 else 0) + n, l1 # ls1, s2)))"

text \<open>
  The handler of the submit button. Its parameters are the answer to \<open>confirm\<close>, the
  date of the export and what \<open>fetch\<close> will come back with. \<open>data_saved = true\<close> is
  the statement after the call of \<open>submit_digitized\<close>, which is not awaited.
\<close>

definition submit_button_onclick :: "bool \<Rightarrow> string \<Rightarrow> response \<Rightarrow> session \<Rightarrow> session" where
  "submit_button_onclick confirmed date r s =
     (if difficulty (meta s) = Null then user_message ChooseDifficulty (Some Error) s
      else if length (drawn_items s) = 0 then user_message ProjectEmpty (Some Error) s
      else
        (case validate_each (drawn_items s) s of
           (n_lines_with_issues, ls, s1) \<Rightarrow>
             (let s2 = s1\<lparr>drawn_items := ls\<rparr>
              in if n_lines_with_issues > 0
                 then user_message (UnfixedIssues n_lines_with_issues) (Some Error) s2
                 else if \<not> confirmed then s2
                 else (submit_digitized (make_feature_save_json date (drawn_items s2) (meta s2))
                         r s2)\<lparr>data_saved := True\<rparr>)))"

section \<open>Notions used in the statements\<close>

text \<open>
  A session is well formed when the ids of its lines are below the next id Leaflet will
  hand out, as they are in every session the page builds.
\<close>

definition fresh_ids :: "session \<Rightarrow> bool" where
  "fresh_ids s = (\<forall>l \<in> set (drawn_items s). lid l < next_id s)"

text \<open>A line is registered when it has properties whose kind is a key of the registry.\<close>

definition registered :: "layer \<Rightarrow> bool" where
  "registered l = (case properties l of None \<Rightarrow> False | Some p \<Rightarrow> class_lookup (kind p) \<noteq> None)"

definition layer_kind :: "layer \<Rightarrow> string option" where
  "layer_kind l = (case properties l of None \<Rightarrow> None | Some p \<Rightarrow> kind p)"

text \<open>The feature \<open>make_feature_save_json\<close> writes for one layer.\<close>

definition exported :: "real \<Rightarrow> layer \<Rightarrow> feature_geojson" where
  "exported sc l = (if sc \<noteq> 1 then scale_feature sc (layer_geojson l) else layer_geojson l)"

text \<open>
  A vertex with both coordinates rounded to 6 decimals, and what it is for two vertices
  to agree up to half a unit of the sixth decimal in each coordinate.
\<close>

definition rounded :: "latlng \<Rightarrow> latlng" where
  "rounded p = \<lparr>lat = formatNum (lat p), lng = formatNum (lng p)\<rparr>"

definition within_tolerance :: "latlng \<Rightarrow> latlng \<Rightarrow> bool" where
  "within_tolerance p q =
     (\<bar>lat p - lat q\<bar> \<le> 1 / 2000000 \<and> \<bar>lng p - lng q\<bar> \<le> 1 / 2000000)"

text \<open>
  The validity of the specification, in its words: every consecutive pair moves in the
  same horizontal direction as the displacement from the first vertex to the last, the
  direction of a displacement being its sign.
\<close>

fun pairs_move :: "real \<Rightarrow> latlng list \<Rightarrow> bool" where
  "pairs_move d (a # b # rest) = (sgn (lng b - lng a) = d \<and> pairs_move d (b # rest))"
| "pairs_move d rest = True"

definition same_direction :: "latlng list \<Rightarrow> bool" where
  "same_direction ps = pairs_move (sgn (lng (last ps) - lng (hd ps))) ps"

text \<open>
  The direction the source reads off a line: to the right when the first vertex is left
  of the last, to the left otherwise.
\<close>

definition drawn_direction :: "latlng list \<Rightarrow> real" where
  "drawn_direction ps = (if lng (hd ps) < lng (last ps) then 1 else - 1)"

section \<open>Example sessions\<close>

text \<open>A vertex written \<open>(x, y)\<close> as in the scenarios of the specification.\<close>

definition pt :: "real \<Rightarrow> real \<Rightarrow> latlng" where
  "pt x y = \<lparr>lat = y, lng = x\<rparr>"

definition example_meta :: meta where
  "example_meta = \<lparr>radar_key = ''b'', width = 100, height = 50, difficulty = Str ''easy'',
                    comment = Null, xscale = 2\<rparr>"

definition empty_session :: session where
  "empty_session = \<lparr>next_id = 0, on_map = [], drawn_items = [], meta = example_meta,
                     data_saved = False, messages = [], alerts = [], posted = []\<rparr>"

text \<open>A water-table line without issues, as \<open>create_polyline\<close> leaves it.\<close>

definition water_table_line :: "nat \<Rightarrow> latlng list \<Rightarrow> layer" where
  "water_table_line i ps =
     \<lparr>lid = i, latlngs = ps,
      properties = Some \<lparr>kind = Some ''water_table'', color = Some ''#CE00FF'',
                          name = Some ''Water table'', issues = Some []\<rparr>,
      issue_markers = [], style_color = ''#CE00FF''\<rparr>"

text \<open>The session after one line was drawn on the empty page, with unsaved changes.\<close>

definition session_with :: "layer \<Rightarrow> session" where
  "session_with l = empty_session\<lparr>next_id := Suc (lid l), on_map := [lid l], drawn_items := [l]\<rparr>"

definition water_properties :: props where
  "water_properties = \<lparr>kind = Some ''water_table'', color = Some ''#CE00FF'',
                        name = Some ''Water table'', issues = Some []\<rparr>"

text \<open>A document for another radargram (scenario C).\<close>

definition other_radargram :: document where
  "other_radargram =
     \<lparr>radar_key = ''a'', width = 100, height = 50, difficulty = Str ''hard'', comment = Str ''c'',
      date_modified = ''2025-04-05T00:00:00.000Z'',
      features = [\<lparr>geometry = LineString [(Num 1, 1), (Num 2, 1)],
                   feature_properties = Some water_properties\<rparr>]\<rparr>"

text \<open>A document of this radargram with a point before a line.\<close>

definition point_then_line :: document where
  "point_then_line =
     \<lparr>radar_key = ''b'', width = 100, height = 50, difficulty = Str ''easy'', comment = Null,
      date_modified = ''2025-04-05T00:00:00.000Z'',
      features = [\<lparr>geometry = OtherGeometry ''Point'', feature_properties = Some water_properties\<rparr>,
                  \<lparr>geometry = LineString [(Num 0, 0), (Num 5, 0)],
                   feature_properties = Some water_properties\<rparr>]\<rparr>"

lemmas model_defs =
  create_polyline_def class_lookup_def get_layer_classes_def add_polyline_metadata_def
  change_layer_kind_def validate_polyline_def Let_def map_addLayer_def group_addLayer_def
  user_message_def submit_digitized_def submit_button_onclick_def make_feature_save_json_def
  layer_geojson_def js_div_def load_digitized_inner_def mismatch_def clearLayers_def
  split_polyline_def

lemmas example_defs =
  pt_def example_meta_def empty_session_def water_table_line_def session_with_def
  water_properties_def other_radargram_def point_then_line_def

section \<open>Facts about validation\<close>

lemma sgn_pos_iff: "(sgn (b - a) = (1::real)) = (a < b)"
  by (simp add: sgn_if)

lemma sgn_neg_iff: "(sgn (b - a) = (- 1::real)) = (b < a)"
  by (simp add: sgn_if)

lemma overhangs_empty:
  "(overhangs inc i ps = []) = pairs_move (if inc then 1 else - 1) ps"
  by (induction inc i ps rule: overhangs.induct) (auto simp: sgn_pos_iff sgn_neg_iff)

lemma overhangs_index:
  "((j, p) \<in> set (overhangs inc i ps)) =
     (\<exists>k. j = i + k \<and> Suc k < length ps \<and> p = ps ! k \<and>
          sgn (lng (ps ! Suc k) - lng (ps ! k)) \<noteq> (if inc then 1 else - 1))"
proof (induction inc i ps arbitrary: j p rule: overhangs.induct)
  case (1 inc i a b rest)
  have step: "(\<exists>k. j = i + k \<and> Suc k < length (a # b # rest) \<and> p = (a # b # rest) ! k \<and>
          sgn (lng ((a # b # rest) ! Suc k) - lng ((a # b # rest) ! k)) \<noteq> (if inc then 1 else - 1))
     = ((j = i \<and> p = a \<and> sgn (lng b - lng a) \<noteq> (if inc then 1 else - 1)) \<or>
        (\<exists>k. j = Suc i + k \<and> Suc k < length (b # rest) \<and> p = (b # rest) ! k \<and>
          sgn (lng ((b # rest) ! Suc k) - lng ((b # rest) ! k)) \<noteq> (if inc then 1 else - 1)))"
    (is "?L = (?A \<or> ?B)")
  proof
    assume ?L
    then obtain k where k: "j = i + k" "Suc k < length (a # b # rest)" "p = (a # b # rest) ! k"
      "sgn (lng ((a # b # rest) ! Suc k) - lng ((a # b # rest) ! k)) \<noteq> (if inc then 1 else - 1)"
      by blast
    show "?A \<or> ?B"
    proof (cases k)
      case 0
      with k show ?thesis by simp
    next
      case (Suc m)
      with k have "j = Suc i + m \<and> Suc m < length (b # rest) \<and> p = (b # rest) ! m \<and>
          sgn (lng ((b # rest) ! Suc m) - lng ((b # rest) ! m)) \<noteq> (if inc then 1 else - 1)"
        by simp
      then show ?thesis by blast
    qed
  next
    assume "?A \<or> ?B"
    then show ?L
    proof
      assume ?A
      then have "j = i + 0 \<and> Suc 0 < length (a # b # rest) \<and> p = (a # b # rest) ! 0 \<and>
          sgn (lng ((a # b # rest) ! Suc 0) - lng ((a # b # rest) ! 0)) \<noteq> (if inc then 1 else - 1)"
        by simp
      then show ?L by blast
    next
      assume ?B
      then obtain m where "j = Suc i + m \<and> Suc m < length (b # rest) \<and> p = (b # rest) ! m \<and>
          sgn (lng ((b # rest) ! Suc m) - lng ((b # rest) ! m)) \<noteq> (if inc then 1 else - 1)"
        by blast
      then have "j = i + Suc m \<and> Suc (Suc m) < length (a # b # rest) \<and>
          p = (a # b # rest) ! Suc m \<and>
          sgn (lng ((a # b # rest) ! Suc (Suc m)) - lng ((a # b # rest) ! Suc m)) \<noteq>
            (if inc then 1 else - 1)"
        by simp
      then show ?L by blast
    qed
  qed
  have flag: "((inc \<and> lng b \<le> lng a) \<or> (\<not> inc \<and> lng b \<ge> lng a)) =
     (sgn (lng b - lng a) \<noteq> (if inc then 1 else - 1))"
    by (auto simp: sgn_pos_iff sgn_neg_iff)
  show ?case
    unfolding step using "1.IH"[of j p] flag
    by (cases "(inc \<and> lng b \<le> lng a) \<or> (\<not> inc \<and> lng b \<ge> lng a)") auto
qed simp_all

lemma pairs_move_up: "pairs_move 1 (a # ps) \<Longrightarrow> ps \<noteq> [] \<Longrightarrow> lng a < lng (last ps)"
proof (induction ps arbitrary: a)
  case Nil
  then show ?case by simp
next
  case (Cons b ps)
  then show ?case
    by (cases ps) (auto simp: sgn_pos_iff intro: less_trans)
qed

lemma pairs_move_down: "pairs_move (- 1) (a # ps) \<Longrightarrow> ps \<noteq> [] \<Longrightarrow> lng (last ps) < lng a"
proof (induction ps arbitrary: a)
  case Nil
  then show ?case by simp
next
  case (Cons b ps)
  then show ?case
    by (cases ps) (auto simp: sgn_neg_iff intro: less_trans)
qed

lemma validate_issues:
  "fst (validate_polyline l skip s) =
     (if length (latlngs l) < 2 then []
      else map (\<lambda>(i, p). Overhang i)
             (overhangs (lng (hd (latlngs l)) < lng (last (latlngs l))) 1 (latlngs l)))"
  by (simp add: validate_polyline_def Let_def)

lemma validate_issues_session:
  "fst (validate_polyline l skip s) = fst (validate_polyline l skip' s')"
  by (simp add: validate_issues)

lemma no_issues_iff:
  assumes "2 \<le> length ps"
  shows "pairs_move (if lng (hd ps) < lng (last ps) then 1 else - 1) ps =
           (lng (hd ps) \<noteq> lng (last ps) \<and> same_direction ps)"
proof -
  obtain a b rest where ps: "ps = a # b # rest"
    using assms by (cases ps; cases "tl ps") auto
  show ?thesis
  proof (cases "lng (hd ps) < lng (last ps)")
    case True
    then have "sgn (lng (last ps) - lng (hd ps)) = 1" by (simp add: sgn_pos_iff)
    with True show ?thesis by (simp add: same_direction_def)
  next
    case False
    show ?thesis
    proof (cases "lng (hd ps) = lng (last ps)")
      case True
      have "\<not> pairs_move (- 1) ps"
      proof
        assume "pairs_move (- 1) ps"
        then have "lng (last (b # rest)) < lng a"
          using pairs_move_down[of a "b # rest"] ps by simp
        with True ps show False by simp
      qed
      with False True show ?thesis by simp
    next
      case ne: False
      with False have "lng (last ps) < lng (hd ps)" by simp
      then have "sgn (lng (last ps) - lng (hd ps)) = - 1" by (simp add: sgn_neg_iff)
      with False ne show ?thesis by (simp add: same_direction_def)
    qed
  qed
qed

lemma validate_polyline_frame:
  "validate_polyline l skip s = (found, l1, s1) \<Longrightarrow>
     posted s1 = posted s \<and> meta s1 = meta s \<and> data_saved s1 = data_saved s \<and>
     messages s1 = messages s \<and> drawn_items s1 = drawn_items s \<and>
     latlngs l1 = latlngs l \<and> properties l1 = properties l \<and> lid l1 = lid l"
  by (auto simp: validate_polyline_def Let_def split: if_splits)

lemma validate_each_Cons:
  "validate_polyline l True s = (found, l', s') \<Longrightarrow> validate_each ls s' = (m, ls', s'') \<Longrightarrow>
     validate_each (l # ls) s = ((if length found > 0 then 1 else 0) + m, l' # ls', s'')"
  by simp


lemma validate_each_frame:
  "validate_each ls s = (n, ls1, s1) \<Longrightarrow>
     posted s1 = posted s \<and> meta s1 = meta s \<and> data_saved s1 = data_saved s \<and>
     messages s1 = messages s \<and>
     map latlngs ls1 = map latlngs ls \<and> map properties ls1 = map properties ls \<and>
     n = length (filter (\<lambda>l. fst (validate_polyline l True s) \<noteq> []) ls)"
proof (induction ls arbitrary: s n ls1 s1)
  case Nil
  then show ?case by simp
next
  case (Cons l ls)
  obtain found l' s' where v: "validate_polyline l True s = (found, l', s')"
    by (cases "validate_polyline l True s") auto
  obtain m ls' s'' where e: "validate_each ls s' = (m, ls', s'')"
    by (cases "validate_each ls s'") auto
  have "(n, ls1, s1) = ((if length found > 0 then 1 else 0) + m, l' # ls', s'')"
    using validate_each_Cons[OF v e] Cons.prems by (simp only:)
  then have r: "n = (if length found > 0 then 1 else 0) + m" "ls1 = l' # ls'" "s1 = s''"
    by simp_all
  note f1 = validate_polyline_frame[OF v]
  note f2 = Cons.IH[OF e]
  have fnd: "found = fst (validate_polyline l True s)" using v by simp
  have cnt: "length (filter (\<lambda>l. fst (validate_polyline l True s') \<noteq> []) ls) =
             length (filter (\<lambda>l. fst (validate_polyline l True s) \<noteq> []) ls)"
    by (simp add: validate_issues)
  have a: "posted s1 = posted s" "meta s1 = meta s" "data_saved s1 = data_saved s"
    "messages s1 = messages s"
    unfolding r(3) using f1 f2 by simp_all
  have b: "map latlngs ls1 = map latlngs (l # ls)" "map properties ls1 = map properties (l # ls)"
    unfolding r(2) using f1 f2 by simp_all
  have m: "m = length (filter (\<lambda>l. fst (validate_polyline l True s) \<noteq> []) ls)"
    using f2 cnt by simp
  have c: "n = length (filter (\<lambda>l. fst (validate_polyline l True s) \<noteq> []) (l # ls))"
    unfolding r(1) m fnd by simp
  from a b c show ?case by blast
qed



section \<open>Facts about creating, splitting, saving and loading\<close>

lemma create_polyline_ok:
  assumes c: "class_lookup k = Some c" and f: "fresh_ids s"
  shows "\<exists>l s'. create_polyline coords k s = (Inr l, s') \<and> lid l = next_id s \<and>
           latlngs l = coords \<and>
           (\<exists>found. properties l = Some \<lparr>kind = k, color = Some (ccolor c), name = Some (cname c),
                                 issues = Some found\<rparr>) \<and>
           drawn_items s' = drawn_items s @ [l] \<and> set (on_map s) \<subseteq> set (on_map s') \<and>
           next_id s < next_id s' \<and> meta s' = meta s \<and> data_saved s' = data_saved s \<and>
           messages s' = messages s \<and> posted s' = posted s"
proof -
  have "next_id s \<notin> lid ` set (drawn_items s)"
    using f by (auto simp: fresh_ids_def)
  then show ?thesis
    using c
    by (auto simp: create_polyline_def add_polyline_metadata_def change_layer_kind_def
        validate_polyline_def Let_def group_addLayer_def map_addLayer_def)
qed

lemma split_coords_0:
  "set (split_coords 0 x y d ps) =
     {v \<in> set ps. lng v \<le> x} \<union>
     (if \<not> d \<and> (\<exists>v \<in> set ps. x < lng v) then {\<lparr>lat = y, lng = x\<rparr>} else {})"
  by (induction ps arbitrary: d) auto

lemma split_coords_1:
  "set (split_coords (Suc 0) x y d ps) =
     {v \<in> set ps. x \<le> lng v} \<union>
     (if \<not> d \<and> (\<exists>v \<in> set ps. lng v < x) then {\<lparr>lat = y, lng = x\<rparr>} else {})"
  by (induction ps arbitrary: d) auto

lemma fresh_ids_create:
  assumes "create_polyline coords k s = (Inr l, s')" "fresh_ids s" "class_lookup k = Some c"
  shows "fresh_ids s'"
proof -
  from create_polyline_ok[OF assms(3) assms(2), of coords] assms(1)
  have d: "drawn_items s' = drawn_items s @ [l]" and i: "lid l = next_id s"
    and n: "next_id s < next_id s'"
    by auto
  have "lid k < next_id s'" if "k \<in> set (drawn_items s')" for k
  proof (cases "k = l")
    case True
    with i n show ?thesis by simp
  next
    case False
    with that d have "k \<in> set (drawn_items s)" by simp
    with assms(2) have "lid k < next_id s" by (simp add: fresh_ids_def)
    with n show ?thesis by simp
  qed
  then show ?thesis by (simp add: fresh_ids_def)
qed

lemma split_polyline_ok:
  assumes p: "properties l = Some p" and c: "class_lookup (kind p) = Some c"
    and m: "lid l \<in> set (on_map s)" and f: "fresh_ids s"
  shows "\<exists>c0 c1 s'. split_polyline l x y s = (None, s') \<and>
           drawn_items s' = drawn_items s @ [c0, c1] \<and>
           latlngs c0 = split_coords 0 x y False (latlngs l) \<and>
           latlngs c1 = split_coords 1 x y False (latlngs l) \<and>
           map_option kind (properties c0) = Some (kind p) \<and>
           map_option kind (properties c1) = Some (kind p) \<and>
           lid l \<notin> set (on_map s')"
proof -
  from create_polyline_ok[OF c f, of "split_coords 0 x y False (latlngs l)"]
  obtain c0 s1 where 0: "create_polyline (split_coords 0 x y False (latlngs l)) (kind p) s = (Inr c0, s1)"
    "latlngs c0 = split_coords 0 x y False (latlngs l)"
    "map_option kind (properties c0) = Some (kind p)"
    "drawn_items s1 = drawn_items s @ [c0]" "set (on_map s) \<subseteq> set (on_map s1)"
    by force
  have f1: "fresh_ids s1" using fresh_ids_create[OF 0(1) f c] .
  from create_polyline_ok[OF c f1, of "split_coords 1 x y False (latlngs l)"]
  obtain c1 s2 where 1: "create_polyline (split_coords 1 x y False (latlngs l)) (kind p) s1 = (Inr c1, s2)"
    "latlngs c1 = split_coords 1 x y False (latlngs l)"
    "map_option kind (properties c1) = Some (kind p)"
    "drawn_items s2 = drawn_items s1 @ [c1]" "set (on_map s1) \<subseteq> set (on_map s2)"
    by force
  have on: "lid l \<in> set (on_map s2)" using m 0(5) 1(5) by blast
  have "split_polyline l x y s = (None, s2\<lparr>on_map := removeAll (lid l) (on_map s2)\<rparr>)"
    using p 0(1) 1(1) on by (simp add: split_polyline_def)
  then show ?thesis
    using 0 1 by simp
qed


lemma features_export:
  "features (make_feature_save_json date ls m) = map (exported (xscale m)) ls"
  by (simp add: make_feature_save_json_def exported_def Let_def)

lemma exported_props: "feature_properties (exported sc l) = properties l"
  by (simp add: exported_def layer_geojson_def)

lemma formatNum_close: "\<bar>formatNum x - x\<bar> \<le> 1 / 2000000"
proof -
  let ?y = "x * 1000000 + 1 / 2"
  define n where "n = real_of_int \<lfloor>?y\<rfloor>"
  have 1: "n \<le> ?y" unfolding n_def by linarith
  have 2: "?y < n + 1" unfolding n_def by linarith
  have f: "formatNum x = n / 1000000" by (simp add: formatNum_def n_def)
  from 1 have "n / 1000000 \<le> x + 1 / 2000000" by (simp add: field_simps)
  moreover from 2 have "x - 1 / 2000000 < n / 1000000" by (simp add: field_simps)
  ultimately show ?thesis unfolding f by linarith
qed

lemma rounded_within: "within_tolerance (rounded p) p"
  unfolding within_tolerance_def rounded_def
  using formatNum_close[of "lat p"] formatNum_close[of "lng p"] by simp

lemma rounded_close: "list_all2 within_tolerance (map rounded ps) ps"
  by (induction ps) (simp_all add: rounded_within)

lemma rounded_lines_close:
  "list_all2 (list_all2 within_tolerance) (map (\<lambda>l. map rounded (latlngs l)) ls) (map latlngs ls)"
  by (induction ls) (simp_all add: rounded_close)

lemma exported_coords:
  assumes "sc \<noteq> 0"
  shows "\<exists>cs. geometry (exported sc l) = LineString cs \<and>
           map (\<lambda>(a, b). \<lparr>lat = b, lng = js_times a sc\<rparr>) cs = map rounded (latlngs l)"
proof -
  have "map (\<lambda>(a, b). \<lparr>lat = b, lng = js_times a sc\<rparr>)
          (map (scale_coord sc) (map (\<lambda>p. (Num (formatNum (lng p)), formatNum (lat p))) ps)) =
        map rounded ps" for ps
    using assms by (induction ps) (simp_all add: js_div_def rounded_def)
  moreover have "map (\<lambda>(a, b). \<lparr>lat = b, lng = js_times a 1\<rparr>)
          (map (\<lambda>p. (Num (formatNum (lng p)), formatNum (lat p))) ps) = map rounded ps" for ps
    by (induction ps) (simp_all add: rounded_def)
  ultimately show ?thesis
    by (simp add: exported_def layer_geojson_def)
qed

lemma exported_geometry:
  assumes "sc \<noteq> 0"
  shows "geometry (exported sc l) =
           LineString (map (\<lambda>p. (Num (formatNum (lng p) / sc), formatNum (lat p))) (latlngs l))"
  using assms by (simp add: exported_def layer_geojson_def js_div_def)

lemma load_exported:
  assumes "\<forall>l \<in> set ls. registered l" and "fresh_ids s" and "xscale (meta s) \<noteq> 0"
  shows "\<exists>s'. load_features (map (exported (xscale (meta s))) ls) s = (Completed, s') \<and>
           map latlngs (drawn_items s') =
             map latlngs (drawn_items s) @ map (\<lambda>l. map rounded (latlngs l)) ls \<and>
           map layer_kind (drawn_items s') = map layer_kind (drawn_items s) @ map layer_kind ls \<and>
           messages s' = messages s \<and> meta s' = meta s"
  using assms
proof (induction ls arbitrary: s)
  case Nil
  then show ?case by simp
next
  case (Cons l ls)
  from Cons.prems(1) obtain p c where p: "properties l = Some p" "class_lookup (kind p) = Some c"
    by (auto simp: registered_def split: option.splits)
  then obtain k0 where k0: "kind p = Some k0"
    by (cases "kind p") (auto simp: class_lookup_def)
  from exported_coords[OF Cons.prems(3), of l]
  obtain cs where cs: "geometry (exported (xscale (meta s)) l) = LineString cs"
    "map (\<lambda>(a, b). \<lparr>lat = b, lng = js_times a (xscale (meta s))\<rparr>) cs = map rounded (latlngs l)"
    by blast
  from create_polyline_ok[OF p(2) Cons.prems(2), of "map rounded (latlngs l)"]
  obtain n s1 where n: "create_polyline (map rounded (latlngs l)) (kind p) s = (Inr n, s1)"
    "lid n = next_id s" "latlngs n = map rounded (latlngs l)" "layer_kind n = kind p"
    "drawn_items s1 = drawn_items s @ [n]" "meta s1 = meta s" "messages s1 = messages s"
    by (force simp: layer_kind_def)
  have f1: "fresh_ids s1" using fresh_ids_create[OF n(1) Cons.prems(2) p(2)] .
  have same: "s1\<lparr>drawn_items := group_addLayer n (drawn_items s1)\<rparr> = s1"
    using n(5) by (simp add: group_addLayer_def)
  have step: "load_features (map (exported (xscale (meta s))) (l # ls)) s =
                load_features (map (exported (xscale (meta s))) ls) s1"
    using p k0 cs n(1) same by (simp add: exported_props)
  from Cons.IH[of s1] Cons.prems f1 n(6)
  obtain s' where s': "load_features (map (exported (xscale (meta s))) ls) s1 = (Completed, s')"
    "map latlngs (drawn_items s') =
       map latlngs (drawn_items s1) @ map (\<lambda>l. map rounded (latlngs l)) ls"
    "map layer_kind (drawn_items s') = map layer_kind (drawn_items s1) @ map layer_kind ls"
    "messages s' = messages s1" "meta s' = meta s1"
    by auto
  have "layer_kind l = kind p" using p by (simp add: layer_kind_def)
  with step s' n show ?case by simp
qed

lemma layer_geojson_zip:
  "map layer_geojson ls =
     map (\<lambda>(ps, pr).
            \<lparr>geometry = LineString (map (\<lambda>p. (Num (formatNum (lng p)), formatNum (lat p))) ps),
             feature_properties = pr\<rparr>)
         (zip (map latlngs ls) (map properties ls))"
  by (induction ls) (simp_all add: layer_geojson_def)

lemma export_depends:
  assumes "map latlngs ls1 = map latlngs ls" and "map properties ls1 = map properties ls"
  shows "make_feature_save_json date ls1 m = make_feature_save_json date ls m"
proof -
  have "map layer_geojson ls1 = map layer_geojson ls"
    unfolding layer_geojson_zip assms ..
  then show ?thesis by (simp add: make_feature_save_json_def)
qed


section \<open>What the submit button checks\<close>

text \<open>
  The handler posts a document exactly when the difficulty is not \<open>null\<close>, there is a
  line, no line has an issue when validated at that moment, and the user confirms. The
  issues are those of the vertices as they are now: \<open>properties.issues\<close> plays no part.
\<close>

theorem submit_gate:
  "posted (submit_button_onclick confirmed date r s) =
     (if difficulty (meta s) \<noteq> Null \<and> drawn_items s \<noteq> [] \<and>
         filter (\<lambda>l. fst (validate_polyline l True s) \<noteq> []) (drawn_items s) = [] \<and> confirmed
      then posted s @ [make_feature_save_json date (drawn_items s) (meta s)]
      else posted s)"
proof -
  obtain n ls s1 where e: "validate_each (drawn_items s) s = (n, ls, s1)"
    by (cases "validate_each (drawn_items s) s") auto
  note fr = validate_each_frame[OF e]
  have ex: "make_feature_save_json date ls (meta s) =
              make_feature_save_json date (drawn_items s) (meta s)"
    using fr export_depends by blast
  have n: "(n > 0) =
             (filter (\<lambda>l. fst (validate_polyline l True s) \<noteq> []) (drawn_items s) \<noteq> [])"
    using fr by simp
  have p: "posted s1 = posted s" and m: "meta s1 = meta s" using fr by simp_all
  have sub: "posted (submit_digitized d r (s1\<lparr>drawn_items := ls\<rparr>)) = posted s @ [d]" for d
    using p by (simp add: submit_digitized_def user_message_def Let_def
        split: response.splits body.splits)
  consider (a) "difficulty (meta s) = Null"
    | (b) "difficulty (meta s) \<noteq> Null" "drawn_items s = []"
    | (c) "difficulty (meta s) \<noteq> Null" "drawn_items s \<noteq> []" "n > 0"
    | (d) "difficulty (meta s) \<noteq> Null" "drawn_items s \<noteq> []" "\<not> n > 0" "\<not> confirmed"
    | (e) "difficulty (meta s) \<noteq> Null" "drawn_items s \<noteq> []" "\<not> n > 0" "confirmed"
    by blast
  then show ?thesis
  proof cases
    case a
    then show ?thesis by (simp add: submit_button_onclick_def user_message_def)
  next
    case b
    then show ?thesis by (simp add: submit_button_onclick_def user_message_def)
  next
    case c
    with n have "filter (\<lambda>l. fst (validate_polyline l True s) \<noteq> []) (drawn_items s) \<noteq> []"
      by simp
    moreover have "posted (submit_button_onclick confirmed date r s) = posted s"
      using c e p by (simp add: submit_button_onclick_def user_message_def)
    ultimately show ?thesis by simp
  next
    case d
    have "posted (submit_button_onclick confirmed date r s) = posted s"
      using d e p by (simp add: submit_button_onclick_def)
    with d show ?thesis by simp
  next
    case e
    with n have f: "filter (\<lambda>l. fst (validate_polyline l True s) \<noteq> []) (drawn_items s) = []"
      by simp
    have "posted (submit_button_onclick confirmed date r s) =
            posted s @ [make_feature_save_json date (drawn_items s) (meta s)]"
      using e \<open>validate_each (drawn_items s) s = (n, ls, s1)\<close> sub m ex
      by (simp add: submit_button_onclick_def)
    with e f show ?thesis by simp
  qed
qed

text \<open>
  An instance: a line with an overhang blocks the submission although its cached issues
  are empty, and so does the difficulty \<open>null\<close>.
\<close>

theorem submit_gate_witness:
  "posted (submit_button_onclick True ''d'' (Response 200 (JsonValue (Some ''ok'')))
             (session_with (water_table_line 0 [pt 0 0, pt 5 0, pt 3 0]))) = []
   \<and> posted (submit_button_onclick True ''d'' (Response 200 (JsonValue (Some ''ok'')))
             ((session_with (water_table_line 0 [pt 0 0, pt 5 0]))
                \<lparr>meta := example_meta\<lparr>difficulty := Null\<rparr>\<rparr>)) = []"
proof -
  have a: "filter (\<lambda>l. fst (validate_polyline l True
                (session_with (water_table_line 0 [pt 0 0, pt 5 0, pt 3 0]))) \<noteq> [])
             (drawn_items (session_with (water_table_line 0 [pt 0 0, pt 5 0, pt 3 0]))) \<noteq> []"
    by (simp add: validate_issues example_defs)
  have b: "difficulty (meta ((session_with (water_table_line 0 [pt 0 0, pt 5 0]))
                \<lparr>meta := example_meta\<lparr>difficulty := Null\<rparr>\<rparr>)) = Null"
    by simp
  have c: "posted (session_with l) = []" for l
    by (simp add: example_defs)
  show ?thesis
    using a b c
      submit_gate[of True "''d''" "Response 200 (JsonValue (Some ''ok''))"
        "session_with (water_table_line 0 [pt 0 0, pt 5 0, pt 3 0])"]
      submit_gate[of True "''d''" "Response 200 (JsonValue (Some ''ok''))"
        "(session_with (water_table_line 0 [pt 0 0, pt 5 0]))
           \<lparr>meta := example_meta\<lparr>difficulty := Null\<rparr>\<rparr>"]
    by simp
qed

text \<open>
  Claim C1. The submit handler is to make no network call when no difficulty has been
  chosen, when there is no line, or when a line has issues. The handler tests the
  difficulty with \<open>=== null\<close>. Loading a document without the key
  \<open>difficulty\<close> sets \<open>meta.difficulty\<close> to \<open>undefined\<close>, which passes that
  test: with one valid line and the user's confirmation, the document is posted although
  no difficulty was chosen.
\<close>

theorem submit_gate_undefined_difficulty:
  "difficulty (meta ((session_with (water_table_line 0 [pt 0 0, pt 5 0]))
                       \<lparr>meta := example_meta\<lparr>difficulty := Undefined\<rparr>\<rparr>)) = Undefined
   \<and> posted (submit_button_onclick True ''d'' (Response 200 (JsonValue (Some ''ok'')))
        ((session_with (water_table_line 0 [pt 0 0, pt 5 0]))
           \<lparr>meta := example_meta\<lparr>difficulty := Undefined\<rparr>\<rparr>)) =
       [make_feature_save_json ''d'' [water_table_line 0 [pt 0 0, pt 5 0]]
          (example_meta\<lparr>difficulty := Undefined\<rparr>)]"
  by (simp add: model_defs example_defs)

section \<open>Loading a document of another radargram\<close>

text \<open>
  Claim C2. When the document's \<open>radar_key\<close>, \<open>width\<close> or \<open>height\<close> differs from the
  session's, \<open>load_digitized_inner\<close> reports an error and changes nothing else: the
  lines, the metadata with its comment and difficulty, the map and the flag
  \<open>data_saved\<close> are as before.
\<close>

theorem load_mismatch_rejected:
  assumes "radar_key d \<noteq> radar_key (meta s) \<or> width d \<noteq> width (meta s) \<or>
           height d \<noteq> height (meta s)"
  shows "\<exists>k. load_digitized_inner d s = s\<lparr>messages := messages s @ [(LoadMismatch k, Some Error)]\<rparr>"
  using assms by (auto simp: load_digitized_inner_def mismatch_def user_message_def)

text \<open>Scenario C: a document with key \<open>a\<close> loaded into a session with key \<open>b\<close>.\<close>

theorem load_mismatch_rejected_witness:
  "radar_key other_radargram \<noteq> radar_key (meta (session_with (water_table_line 0 [pt 0 0, pt 5 0])))
   \<and> drawn_items (load_digitized_inner other_radargram
         (session_with (water_table_line 0 [pt 0 0, pt 5 0]))) = [water_table_line 0 [pt 0 0, pt 5 0]]
   \<and> meta (load_digitized_inner other_radargram
         (session_with (water_table_line 0 [pt 0 0, pt 5 0]))) = example_meta
   \<and> snd (last (messages (load_digitized_inner other_radargram
         (session_with (water_table_line 0 [pt 0 0, pt 5 0]))))) = Some Error"
proof -
  let ?s = "session_with (water_table_line 0 [pt 0 0, pt 5 0])"
  have h: "radar_key other_radargram \<noteq> radar_key (meta ?s)"
    by (simp add: example_defs)
  then have "radar_key other_radargram \<noteq> radar_key (meta ?s) \<or>
             width other_radargram \<noteq> width (meta ?s) \<or> height other_radargram \<noteq> height (meta ?s)"
    by blast
  from load_mismatch_rejected[OF this] obtain k where
    "load_digitized_inner other_radargram ?s =
       ?s\<lparr>messages := messages ?s @ [(LoadMismatch k, Some Error)]\<rparr>" ..
  then have "drawn_items (load_digitized_inner other_radargram ?s) = drawn_items ?s"
    and "meta (load_digitized_inner other_radargram ?s) = meta ?s"
    and "snd (last (messages (load_digitized_inner other_radargram ?s))) = Some Error"
    by simp_all
  with h show ?thesis by (simp add: session_with_def empty_session_def)
qed

section \<open>When a line is valid\<close>

text \<open>
  Claim C3, as stated, fails on a vertical line: with vertices \<open>(0,0)\<close> and \<open>(0,5)\<close>
  the displacement from first to last has sign 0 and so has the only pair, yet the
  source flags vertex 1, since it tests \<open><=\<close> and \<open>>=\<close>.
\<close>

theorem validate_vertical_line_counterexample:
  "same_direction [pt 0 0, pt 0 5] \<and>
   fst (validate_polyline (water_table_line 0 [pt 0 0, pt 0 5]) True empty_session) = [Overhang 1]"
  by (simp add: same_direction_def model_defs example_defs)

text \<open>
  Claim C3, amended. \<open>validate_polyline\<close> returns no issue if and only if the line has
  fewer than two vertices, or its first and last vertex differ in x and every consecutive
  pair moves in the direction of that displacement. A line of two or more vertices whose
  first and last x coincide always has an issue. The issues are exactly the texts naming
  vertex \<open>i\<close> for the pairs \<open>(i - 1, i)\<close> that do not move strictly to the right when
  the first vertex is left of the last, strictly to the left otherwise.
\<close>

theorem validate_polyline_issues:
  "(fst (validate_polyline l skip s) = []) =
      (length (latlngs l) < 2 \<or>
       (lng (hd (latlngs l)) \<noteq> lng (last (latlngs l)) \<and> same_direction (latlngs l)))
   \<and> (\<forall>i. (Overhang i \<in> set (fst (validate_polyline l skip s))) =
        (0 < i \<and> i < length (latlngs l) \<and>
         sgn (lng (latlngs l ! i) - lng (latlngs l ! (i - 1))) \<noteq> drawn_direction (latlngs l)))"
proof (cases "length (latlngs l) < 2")
  case True
  then show ?thesis by (auto simp: validate_issues)
next
  case False
  then have two: "2 \<le> length (latlngs l)" by simp
  have a: "(fst (validate_polyline l skip s) = []) =
      (lng (hd (latlngs l)) \<noteq> lng (last (latlngs l)) \<and> same_direction (latlngs l))"
    using False no_issues_iff[OF two] by (simp add: validate_issues overhangs_empty)
  have b: "(Overhang i \<in> set (fst (validate_polyline l skip s))) =
        (0 < i \<and> i < length (latlngs l) \<and>
         sgn (lng (latlngs l ! i) - lng (latlngs l ! (i - 1))) \<noteq> drawn_direction (latlngs l))"
    for i
  proof -
    have "(Overhang i \<in> set (fst (validate_polyline l skip s))) =
       (\<exists>p. (i, p) \<in> set (overhangs (lng (hd (latlngs l)) < lng (last (latlngs l))) 1 (latlngs l)))"
      using False by (force simp: validate_issues)
    also have "\<dots> = (\<exists>k. i = Suc k \<and> Suc k < length (latlngs l) \<and>
         sgn (lng (latlngs l ! Suc k) - lng (latlngs l ! k)) \<noteq> drawn_direction (latlngs l))"
      by (auto simp: overhangs_index drawn_direction_def)
    also have "\<dots> = (0 < i \<and> i < length (latlngs l) \<and>
         sgn (lng (latlngs l ! i) - lng (latlngs l ! (i - 1))) \<noteq> drawn_direction (latlngs l))"
      by (cases i) auto
    finally show ?thesis .
  qed
  from a b False show ?thesis by simp
qed

text \<open>
  Scenarios A and B: \<open>[(0,0),(5,0)]\<close> has no issue; \<open>[(0,0),(5,0),(3,0)]\<close> has an
  issue that names vertex 2.
\<close>

theorem validate_polyline_issues_witness:
  "fst (validate_polyline (water_table_line 0 [pt 0 0, pt 5 0]) True empty_session) = []
   \<and> Overhang 2 \<in> set (fst (validate_polyline (water_table_line 0 [pt 0 0, pt 5 0, pt 3 0])
                               True empty_session))"
proof -
  let ?a = "water_table_line 0 [pt 0 0, pt 5 0]"
  let ?b = "water_table_line 0 [pt 0 0, pt 5 0, pt 3 0]"
  have "lng (hd (latlngs ?a)) \<noteq> lng (last (latlngs ?a)) \<and> same_direction (latlngs ?a)"
    by (simp add: same_direction_def example_defs)
  with validate_polyline_issues[of ?a True empty_session]
  have 1: "fst (validate_polyline ?a True empty_session) = []" by blast
  have "0 < (2::nat) \<and> 2 < length (latlngs ?b) \<and>
        sgn (lng (latlngs ?b ! 2) - lng (latlngs ?b ! (2 - 1))) \<noteq> drawn_direction (latlngs ?b)"
    by (simp add: drawn_direction_def example_defs)
  with validate_polyline_issues[of ?b True empty_session]
  have 2: "Overhang 2 \<in> set (fst (validate_polyline ?b True empty_session))" by blast
  from 1 2 show ?thesis by blast
qed


section \<open>Saving and loading again\<close>

text \<open>
  Claim C4, as stated, fails in three ways. For the scale 0 the export divides by 0, JSON
  carries the result as \<open>null\<close> and the import multiplies by 0: the line
  \<open>[(0,0),(5,0)]\<close> comes back as \<open>[(0,0),(0,0)]\<close>. At any scale the export rounds
  to 6 decimals: the vertex \<open>(1.23456789, 0)\<close> comes back as \<open>(1.234568, 0)\<close>, which
  is further off than the rounding of doubles. And a line whose kind is \<open>undefined\<close>, as
  a failed \<open>change_layer_kind\<close> leaves it, comes back with the kind found by its name.
\<close>

theorem export_import_roundtrip_counterexample:
  "map latlngs (drawn_items (load_digitized_inner
        (make_feature_save_json ''d'' [water_table_line 0 [pt 0 0, pt 5 0]]
           (example_meta\<lparr>xscale := 0\<rparr>))
        ((session_with (water_table_line 0 [pt 0 0, pt 5 0]))
           \<lparr>meta := example_meta\<lparr>xscale := 0\<rparr>\<rparr>))) = [[pt 0 0, pt 0 0]]
   \<and> map latlngs (drawn_items (load_digitized_inner
        (make_feature_save_json ''d'' [water_table_line 0 [pt 0 0, pt 1.23456789 0]] example_meta)
        (session_with (water_table_line 0 [pt 0 0, pt 1.23456789 0]))))
       = [[pt 0 0, pt 1.234568 0]]
   \<and> layer_kind ((water_table_line 0 [pt 0 0, pt 5 0])
                     \<lparr>properties := Some (water_properties\<lparr>kind := None\<rparr>)\<rparr>) = None
   \<and> map layer_kind (drawn_items (load_digitized_inner
        (make_feature_save_json ''d''
           [(water_table_line 0 [pt 0 0, pt 5 0])
              \<lparr>properties := Some (water_properties\<lparr>kind := None\<rparr>)\<rparr>] example_meta)
        (session_with ((water_table_line 0 [pt 0 0, pt 5 0])
              \<lparr>properties := Some (water_properties\<lparr>kind := None\<rparr>)\<rparr>))))
       = [Some ''water_table'']"
  by (simp add: model_defs example_defs formatNum_def layer_kind_def)

text \<open>
  Claim C4, amended. Let the lines \<open>ls\<close> have kinds that are keys of the registry and
  let the scale of \<open>m\<close> be other than 0. Loading the document that
  \<open>make_feature_save_json\<close> writes for \<open>ls\<close> and \<open>m\<close> into any session of the
  same radargram and scale, whatever lines it holds, leaves that session with lines of
  the same kinds as \<open>ls\<close>, in the same order, whose vertices are those of \<open>ls\<close>
  with each coordinate rounded to 6 decimals; so each coordinate is within 0.0000005 of
  the original, coordinates being real numbers. In the document every x is the rounded x
  divided by the scale.
\<close>

theorem export_import_roundtrip:
  assumes "xscale m \<noteq> 0" and "\<forall>l \<in> set ls. registered l"
    and "radar_key (meta t) = radar_key m" and "width (meta t) = width m"
    and "height (meta t) = height m" and "xscale (meta t) = xscale m"
  shows "map geometry (features (make_feature_save_json date ls m))
           = map (\<lambda>l. LineString (map (\<lambda>p. (Num (formatNum (lng p) / xscale m), formatNum (lat p)))
                                       (latlngs l))) ls
       \<and> map latlngs (drawn_items (load_digitized_inner (make_feature_save_json date ls m) t))
           = map (\<lambda>l. map rounded (latlngs l)) ls
       \<and> list_all2 (list_all2 within_tolerance)
           (map latlngs (drawn_items (load_digitized_inner (make_feature_save_json date ls m) t)))
           (map latlngs ls)
       \<and> map layer_kind (drawn_items (load_digitized_inner (make_feature_save_json date ls m) t))
           = map layer_kind ls"
proof -
  let ?d = "make_feature_save_json date ls m"
  let ?t1 = "t\<lparr>meta := (meta t)\<lparr>comment := comment ?d, difficulty := difficulty ?d\<rparr>\<rparr>"
  let ?t2 = "if length (drawn_items ?t1) > 0 then clearLayers ?t1 else ?t1"
  have mm: "mismatch ?d (meta t) = None"
    using assms(3,4,5) by (simp add: mismatch_def make_feature_save_json_def Let_def)
  have e: "drawn_items ?t2 = []" by (simp add: clearLayers_def)
  have x: "xscale (meta ?t2) = xscale m" using assms(6) by (simp add: clearLayers_def)
  then have x0: "xscale (meta ?t2) \<noteq> 0" using assms(1) by simp
  have f: "fresh_ids ?t2" using e by (simp add: fresh_ids_def)
  from load_exported[OF assms(2) f x0, unfolded x]
  obtain s' where s': "load_features (map (exported (xscale m)) ls) ?t2 = (Completed, s')"
    "map latlngs (drawn_items s') = map (\<lambda>l. map rounded (latlngs l)) ls"
    "map layer_kind (drawn_items s') = map layer_kind ls"
    using e by auto
  have "load_digitized_inner ?d t = user_message (Loaded (length (drawn_items s'))) None s'"
    using mm s'(1) by (simp add: load_digitized_inner_def features_export Let_def)
  then have d: "drawn_items (load_digitized_inner ?d t) = drawn_items s'"
    by (simp add: user_message_def)
  have g: "map geometry (features ?d)
           = map (\<lambda>l. LineString (map (\<lambda>p. (Num (formatNum (lng p) / xscale m), formatNum (lat p)))
                                       (latlngs l))) ls"
    using assms(1) by (simp add: features_export exported_geometry)
  show ?thesis
    unfolding d s'(2) s'(3) using rounded_lines_close[of ls] g by simp
qed

text \<open>
  An instance with scale 2: a line saved from one session and loaded into a session that
  holds another line.
\<close>

theorem export_import_roundtrip_witness:
  "xscale example_meta = 2
   \<and> registered (water_table_line 7 [pt 0 0, pt 1.5 0.25])
   \<and> map latlngs (drawn_items (session_with (water_table_line 0 [pt 9 9, pt 8 8])))
       = [[pt 9 9, pt 8 8]]
   \<and> map geometry (features
        (make_feature_save_json ''d'' [water_table_line 7 [pt 0 0, pt 1.5 0.25]] example_meta))
       = [LineString [(Num 0, 0), (Num 0.75, 0.25)]]
   \<and> map latlngs (drawn_items (load_digitized_inner
        (make_feature_save_json ''d'' [water_table_line 7 [pt 0 0, pt 1.5 0.25]] example_meta)
        (session_with (water_table_line 0 [pt 9 9, pt 8 8])))) = [[pt 0 0, pt 1.5 0.25]]
   \<and> map layer_kind (drawn_items (load_digitized_inner
        (make_feature_save_json ''d'' [water_table_line 7 [pt 0 0, pt 1.5 0.25]] example_meta)
        (session_with (water_table_line 0 [pt 9 9, pt 8 8])))) = [Some ''water_table'']"
proof -
  let ?l = "water_table_line 7 [pt 0 0, pt 1.5 0.25]"
  let ?t = "session_with (water_table_line 0 [pt 9 9, pt 8 8])"
  have x: "xscale example_meta = 2" by (simp add: example_defs)
  then have x0: "xscale example_meta \<noteq> 0" by simp
  have r: "registered ?l"
    by (simp add: registered_def class_lookup_def get_layer_classes_def example_defs)
  then have all: "\<forall>l \<in> set [?l]. registered l" by simp
  have h: "radar_key (meta ?t) = radar_key example_meta" "width (meta ?t) = width example_meta"
    "height (meta ?t) = height example_meta" "xscale (meta ?t) = xscale example_meta"
    by (simp_all add: session_with_def empty_session_def)
  have o: "map latlngs (drawn_items ?t) = [[pt 9 9, pt 8 8]]"
    by (simp add: example_defs)
  have v: "map (\<lambda>l. map rounded (latlngs l)) [?l] = [[pt 0 0, pt 1.5 0.25]]"
    by (simp add: rounded_def formatNum_def example_defs)
  have k: "map layer_kind [?l] = [Some ''water_table'']"
    by (simp add: layer_kind_def example_defs)
  have g: "map (\<lambda>l. LineString (map (\<lambda>p. (Num (formatNum (lng p) / xscale example_meta),
                                            formatNum (lat p))) (latlngs l))) [?l]
             = [LineString [(Num 0, 0), (Num 0.75, 0.25)]]"
    by (simp add: formatNum_def example_defs)
  from export_import_roundtrip[OF x0 all h, of "''d''"] x r o v k g show ?thesis by simp
qed

section \<open>Splitting\<close>

text \<open>
  Claim C5. After a split the parent is to be gone. \<open>split_polyline\<close> takes the
  parent off the map but never calls \<open>drawn_items.removeLayer\<close>, while
  \<open>create_polyline\<close> adds every new line to the map and to \<open>drawn_items\<close>. After
  splitting \<open>[(0,0),(2,0),(4,0),(6,0)]\<close> at \<open>x = 3\<close> the children are
  \<open>[(0,0),(2,0),(3,0)]\<close> and \<open>[(3,0),(4,0),(6,0)]\<close>, of the parent's kind, but
  \<open>drawn_items\<close> holds three lines, the parent first, and a save writes all three.
\<close>

theorem split_keeps_parent_in_drawn_items:
  "split_polyline (water_table_line 0 [pt 0 0, pt 2 0, pt 4 0, pt 6 0]) 3 0
      (session_with (water_table_line 0 [pt 0 0, pt 2 0, pt 4 0, pt 6 0]))
   = (None, empty_session\<lparr>next_id := 3, on_map := [1, 2],
        drawn_items := [water_table_line 0 [pt 0 0, pt 2 0, pt 4 0, pt 6 0],
                        water_table_line 1 [pt 0 0, pt 2 0, pt 3 0],
                        water_table_line 2 [pt 3 0, pt 4 0, pt 6 0]]\<rparr>)
   \<and> length (features (make_feature_save_json ''d''
        (drawn_items (snd (split_polyline (water_table_line 0 [pt 0 0, pt 2 0, pt 4 0, pt 6 0]) 3 0
            (session_with (water_table_line 0 [pt 0 0, pt 2 0, pt 4 0, pt 6 0])))))
        example_meta)) = 3"
  by (simp add: model_defs example_defs)

text \<open>
  A cut with all vertices on one side: splitting \<open>[(0,0),(5,0)]\<close> at \<open>x = 10\<close>
  gives the children \<open>[(0,0),(5,0)]\<close> and \<open>[(10,0)]\<close>, so the cut point is a vertex
  of one child only and the children do not meet there.
\<close>

theorem split_one_sided_cut:
  "split_polyline (water_table_line 0 [pt 0 0, pt 5 0]) 10 0
      (session_with (water_table_line 0 [pt 0 0, pt 5 0]))
   = (None, empty_session\<lparr>next_id := 3, on_map := [1, 2],
        drawn_items := [water_table_line 0 [pt 0 0, pt 5 0],
                        water_table_line 1 [pt 0 0, pt 5 0],
                        water_table_line 2 [pt 10 0]]\<rparr>)"
  by (simp add: model_defs example_defs)

text \<open>
  What a split does. For a line on the map whose kind is a key of the registry, in a well
  formed session, \<open>split_polyline\<close> returns normally and creates exactly two children,
  appended to the drawn lines, which keep the parent. Both have the parent's kind. Every
  vertex of a child is a vertex of the parent or the cut point \<open>(x, y)\<close>, and every
  vertex of the parent is a vertex of a child. The cut point is a vertex of the first
  child when the parent has a vertex right of \<open>x\<close>, and of the second child when it has
  a vertex left of \<open>x\<close>; so both children share it when the parent has vertices
  strictly on both sides. The parent is taken off the map. Splitting
  \<open>[(0,0),(2,0),(4,0),(6,0)]\<close> at \<open>x = 3\<close> gives \<open>[(0,0),(2,0),(3,0)]\<close> and
  \<open>[(3,0),(4,0),(6,0)]\<close>.
\<close>

theorem split_polyline_children:
  assumes p: "properties l = Some p" and c: "class_lookup (kind p) = Some c"
    and m: "lid l \<in> set (on_map s)" and f: "fresh_ids s"
  shows "\<exists>c0 c1 s'. split_polyline l x y s = (None, s') \<and>
           drawn_items s' = drawn_items s @ [c0, c1] \<and>
           latlngs c0 = split_coords 0 x y False (latlngs l) \<and>
           latlngs c1 = split_coords 1 x y False (latlngs l) \<and>
           map_option kind (properties c0) = Some (kind p) \<and>
           map_option kind (properties c1) = Some (kind p) \<and>
           set (latlngs c0) \<union> set (latlngs c1) \<subseteq> insert \<lparr>lat = y, lng = x\<rparr> (set (latlngs l)) \<and>
           set (latlngs l) \<subseteq> set (latlngs c0) \<union> set (latlngs c1) \<and>
           ((\<exists>v \<in> set (latlngs l). x < lng v) \<longrightarrow> \<lparr>lat = y, lng = x\<rparr> \<in> set (latlngs c0)) \<and>
           ((\<exists>v \<in> set (latlngs l). lng v < x) \<longrightarrow> \<lparr>lat = y, lng = x\<rparr> \<in> set (latlngs c1)) \<and>
           lid l \<notin> set (on_map s') \<and>
           split_coords 0 3 0 False [pt 0 0, pt 2 0, pt 4 0, pt 6 0] = [pt 0 0, pt 2 0, pt 3 0] \<and>
           split_coords 1 3 0 False [pt 0 0, pt 2 0, pt 4 0, pt 6 0] = [pt 3 0, pt 4 0, pt 6 0]"
proof -
  from split_polyline_ok[OF p c m f, of x y]
  obtain c0 c1 s' where r: "split_polyline l x y s = (None, s')"
    "drawn_items s' = drawn_items s @ [c0, c1]"
    "latlngs c0 = split_coords 0 x y False (latlngs l)"
    "latlngs c1 = split_coords 1 x y False (latlngs l)"
    "map_option kind (properties c0) = Some (kind p)"
    "map_option kind (properties c1) = Some (kind p)"
    "lid l \<notin> set (on_map s')"
    by blast
  have a: "set (latlngs c0) \<union> set (latlngs c1) \<subseteq> insert \<lparr>lat = y, lng = x\<rparr> (set (latlngs l))"
    unfolding r(3,4) by (auto simp: split_coords_0 split_coords_1 split: if_splits)
  have b: "set (latlngs l) \<subseteq> set (latlngs c0) \<union> set (latlngs c1)"
    unfolding r(3,4) by (auto simp: split_coords_0 split_coords_1)
  have d: "(\<exists>v \<in> set (latlngs l). x < lng v) \<longrightarrow> \<lparr>lat = y, lng = x\<rparr> \<in> set (latlngs c0)"
    unfolding r(3) by (auto simp: split_coords_0)
  have e: "(\<exists>v \<in> set (latlngs l). lng v < x) \<longrightarrow> \<lparr>lat = y, lng = x\<rparr> \<in> set (latlngs c1)"
    unfolding r(4) by (auto simp: split_coords_1)
  have g: "split_coords 0 3 0 False [pt 0 0, pt 2 0, pt 4 0, pt 6 0] = [pt 0 0, pt 2 0, pt 3 0]"
    "split_coords 1 3 0 False [pt 0 0, pt 2 0, pt 4 0, pt 6 0] = [pt 3 0, pt 4 0, pt 6 0]"
    by (simp_all add: pt_def)
  from r a b d e g show ?thesis by blast
qed

text \<open>Scenario D, run in a session that holds the one line.\<close>

theorem split_polyline_children_witness:
  "fresh_ids (session_with (water_table_line 0 [pt 0 0, pt 2 0, pt 4 0, pt 6 0]))
   \<and> fst (split_polyline (water_table_line 0 [pt 0 0, pt 2 0, pt 4 0, pt 6 0]) 3 0
            (session_with (water_table_line 0 [pt 0 0, pt 2 0, pt 4 0, pt 6 0]))) = None
   \<and> map latlngs (drawn_items (snd (split_polyline
        (water_table_line 0 [pt 0 0, pt 2 0, pt 4 0, pt 6 0]) 3 0
        (session_with (water_table_line 0 [pt 0 0, pt 2 0, pt 4 0, pt 6 0])))))
     = [[pt 0 0, pt 2 0, pt 4 0, pt 6 0], [pt 0 0, pt 2 0, pt 3 0], [pt 3 0, pt 4 0, pt 6 0]]
   \<and> map layer_kind (drawn_items (snd (split_polyline
        (water_table_line 0 [pt 0 0, pt 2 0, pt 4 0, pt 6 0]) 3 0
        (session_with (water_table_line 0 [pt 0 0, pt 2 0, pt 4 0, pt 6 0])))))
     = [Some ''water_table'', Some ''water_table'', Some ''water_table'']
   \<and> 0 \<notin> set (on_map (snd (split_polyline
        (water_table_line 0 [pt 0 0, pt 2 0, pt 4 0, pt 6 0]) 3 0
        (session_with (water_table_line 0 [pt 0 0, pt 2 0, pt 4 0, pt 6 0])))))"
proof -
  let ?l = "water_table_line 0 [pt 0 0, pt 2 0, pt 4 0, pt 6 0]"
  let ?s = "session_with ?l"
  have p: "properties ?l = Some water_properties"
    by (simp add: example_defs)
  have c: "class_lookup (kind water_properties) =
             Some \<lparr>cname = ''Water table'', ccolor = ''#CE00FF'', ckey = ''water_table''\<rparr>"
    by (simp add: class_lookup_def get_layer_classes_def example_defs)
  have m: "lid ?l \<in> set (on_map ?s)" by (simp add: example_defs)
  have f: "fresh_ids ?s" by (simp add: fresh_ids_def example_defs)
  from split_polyline_children[OF p c m f, of 3 0]
  obtain c0 c1 s' where r: "split_polyline ?l 3 0 ?s = (None, s')"
    "drawn_items s' = drawn_items ?s @ [c0, c1]"
    "latlngs c0 = split_coords 0 3 0 False (latlngs ?l)"
    "latlngs c1 = split_coords 1 3 0 False (latlngs ?l)"
    "map_option kind (properties c0) = Some (kind water_properties)"
    "map_option kind (properties c1) = Some (kind water_properties)"
    "lid ?l \<notin> set (on_map s')"
    "split_coords 0 3 0 False [pt 0 0, pt 2 0, pt 4 0, pt 6 0] = [pt 0 0, pt 2 0, pt 3 0]"
    "split_coords 1 3 0 False [pt 0 0, pt 2 0, pt 4 0, pt 6 0] = [pt 3 0, pt 4 0, pt 6 0]"
    by blast
  have l: "latlngs ?l = [pt 0 0, pt 2 0, pt 4 0, pt 6 0]" "lid ?l = 0"
    by (simp_all add: water_table_line_def)
  have d: "drawn_items ?s = [?l]" by (simp add: session_with_def empty_session_def)
  have k0: "layer_kind c0 = Some ''water_table''" and k1: "layer_kind c1 = Some ''water_table''"
    using r(5,6) by (auto simp: layer_kind_def water_properties_def split: option.splits)
  have kl: "layer_kind ?l = Some ''water_table''"
    by (simp add: layer_kind_def water_table_line_def)
  have 1: "fst (split_polyline ?l 3 0 ?s) = None" using r(1) by simp
  have 2: "map latlngs (drawn_items (snd (split_polyline ?l 3 0 ?s))) =
             [[pt 0 0, pt 2 0, pt 4 0, pt 6 0], [pt 0 0, pt 2 0, pt 3 0], [pt 3 0, pt 4 0, pt 6 0]]"
    using r(1,2,3,4,8,9) l d by simp
  have 3: "map layer_kind (drawn_items (snd (split_polyline ?l 3 0 ?s))) =
             [Some ''water_table'', Some ''water_table'', Some ''water_table'']"
    using r(1,2) d k0 k1 kl by simp
  have 4: "0 \<notin> set (on_map (snd (split_polyline ?l 3 0 ?s)))"
    using r(1,7) l by simp
  from f 1 2 3 4 show ?thesis by blast
qed

text \<open>
  Claim C10. For a line on the map whose kind is a key of the registry, in a well formed
  session, \<open>split_polyline\<close> creates two children such that a vertex of the parent whose
  x equals the cut's x is a vertex of both, a vertex left of the cut is a vertex of the
  first child only, and a vertex right of the cut is a vertex of the second child only.
\<close>

theorem split_polyline_sides:
  assumes p: "properties l = Some p" and c: "class_lookup (kind p) = Some c"
    and m: "lid l \<in> set (on_map s)" and f: "fresh_ids s"
  shows "\<exists>c0 c1 s'. split_polyline l x y s = (None, s') \<and>
           drawn_items s' = drawn_items s @ [c0, c1] \<and>
           (\<forall>v \<in> set (latlngs l).
              (lng v = x \<longrightarrow> v \<in> set (latlngs c0) \<and> v \<in> set (latlngs c1)) \<and>
              (lng v < x \<longrightarrow> v \<in> set (latlngs c0) \<and> v \<notin> set (latlngs c1)) \<and>
              (x < lng v \<longrightarrow> v \<notin> set (latlngs c0) \<and> v \<in> set (latlngs c1)))"
proof -
  from split_polyline_ok[OF p c m f, of x y]
  obtain c0 c1 s' where r: "split_polyline l x y s = (None, s')"
    "drawn_items s' = drawn_items s @ [c0, c1]"
    "latlngs c0 = split_coords 0 x y False (latlngs l)"
    "latlngs c1 = split_coords 1 x y False (latlngs l)"
    by blast
  have "\<forall>v \<in> set (latlngs l).
              (lng v = x \<longrightarrow> v \<in> set (latlngs c0) \<and> v \<in> set (latlngs c1)) \<and>
              (lng v < x \<longrightarrow> v \<in> set (latlngs c0) \<and> v \<notin> set (latlngs c1)) \<and>
              (x < lng v \<longrightarrow> v \<notin> set (latlngs c0) \<and> v \<in> set (latlngs c1))"
    unfolding r(3,4) by (auto simp: split_coords_0 split_coords_1)
  with r(1,2) show ?thesis by blast
qed

text \<open>An instance: the line \<open>[(0,0),(3,0),(6,0)]\<close> cut at \<open>(3,1)\<close>.\<close>

theorem split_polyline_sides_witness:
  "fresh_ids (session_with (water_table_line 0 [pt 0 0, pt 3 0, pt 6 0]))
   \<and> (\<exists>c0 c1. drawn_items (snd (split_polyline (water_table_line 0 [pt 0 0, pt 3 0, pt 6 0]) 3 1
                   (session_with (water_table_line 0 [pt 0 0, pt 3 0, pt 6 0]))))
               = [water_table_line 0 [pt 0 0, pt 3 0, pt 6 0], c0, c1]
        \<and> pt 3 0 \<in> set (latlngs c0) \<and> pt 3 0 \<in> set (latlngs c1)
        \<and> pt 0 0 \<in> set (latlngs c0) \<and> pt 0 0 \<notin> set (latlngs c1)
        \<and> pt 6 0 \<notin> set (latlngs c0) \<and> pt 6 0 \<in> set (latlngs c1))"
proof -
  let ?l = "water_table_line 0 [pt 0 0, pt 3 0, pt 6 0]"
  let ?s = "session_with ?l"
  have p: "properties ?l = Some water_properties"
    by (simp add: example_defs)
  have c: "class_lookup (kind water_properties) =
             Some \<lparr>cname = ''Water table'', ccolor = ''#CE00FF'', ckey = ''water_table''\<rparr>"
    by (simp add: class_lookup_def get_layer_classes_def example_defs)
  have m: "lid ?l \<in> set (on_map ?s)" by (simp add: example_defs)
  have f: "fresh_ids ?s" by (simp add: fresh_ids_def example_defs)
  from split_polyline_sides[OF p c m f, of 3 1]
  obtain c0 c1 s' where r: "split_polyline ?l 3 1 ?s = (None, s')"
    "drawn_items s' = drawn_items ?s @ [c0, c1]"
    and v: "\<forall>v \<in> set (latlngs ?l).
              (lng v = 3 \<longrightarrow> v \<in> set (latlngs c0) \<and> v \<in> set (latlngs c1)) \<and>
              (lng v < 3 \<longrightarrow> v \<in> set (latlngs c0) \<and> v \<notin> set (latlngs c1)) \<and>
              (3 < lng v \<longrightarrow> v \<notin> set (latlngs c0) \<and> v \<in> set (latlngs c1))"
    by blast
  have mem: "pt 0 0 \<in> set (latlngs ?l)" "pt 3 0 \<in> set (latlngs ?l)" "pt 6 0 \<in> set (latlngs ?l)"
    by (simp_all add: water_table_line_def)
  have x: "lng (pt 0 0) < 3" "lng (pt 3 0) = 3" "3 < lng (pt 6 0)"
    by (simp_all add: pt_def)
  have d: "drawn_items (snd (split_polyline ?l 3 1 ?s)) = [?l, c0, c1]"
    using r by (simp add: session_with_def empty_session_def)
  from v mem x have
    "pt 3 0 \<in> set (latlngs c0) \<and> pt 3 0 \<in> set (latlngs c1)
        \<and> pt 0 0 \<in> set (latlngs c0) \<and> pt 0 0 \<notin> set (latlngs c1)
        \<and> pt 6 0 \<notin> set (latlngs c0) \<and> pt 6 0 \<in> set (latlngs c1)"
    by blast
  with d f show ?thesis by blast
qed


section \<open>A feature that is not a line\<close>

text \<open>
  Claim C6. A feature that is no line string is to be skipped and the rest of the
  document loaded. In the source the branch that reports "Skipped loading of one feature"
  ends with \<open>return\<close>, which leaves \<open>load_digitized_inner\<close>: for a document with a
  point followed by a line, the line is not loaded and the session ends with no line.
\<close>

theorem load_stops_at_other_geometry:
  "load_digitized_inner point_then_line empty_session =
     empty_session\<lparr>messages := [(SkippedFeature, Some Error)]\<rparr>"
  by (simp add: model_defs example_defs)

section \<open>Answers to a submission\<close>

text \<open>
  Claim C7. After a submission answered with 401 the flag for unsaved changes is to be as
  before. The handler sets \<open>data_saved = true\<close> right after it has started
  \<open>submit_digitized\<close>, whatever the answer will be: a session with unsaved changes is
  marked as saved although the server refused the document.
\<close>

theorem submit_401_marks_saved:
  "data_saved (session_with (water_table_line 0 [pt 0 0, pt 5 0])) = False
   \<and> submit_button_onclick True ''d'' (Response 401 NotJson)
        (session_with (water_table_line 0 [pt 0 0, pt 5 0]))
     = (session_with (water_table_line 0 [pt 0 0, pt 5 0]))
         \<lparr>data_saved := True, messages := [(NotLoggedIn, Some Error)],
          posted := [make_feature_save_json ''d'' [water_table_line 0 [pt 0 0, pt 5 0]]
                       example_meta]\<rparr>"
  by (simp add: model_defs example_defs)

text \<open>
  Claim C8. A response that is neither a success nor 401 is to be reported as an error.
  \<open>submit_digitized\<close> looks at no status but 401: a response 500 whose body is JSON is
  reported with its message and the feedback "success".
\<close>

theorem submit_500_reported_success:
  "submit_digitized d (Response 500 (JsonValue (Some ''Internal Server Error''))) empty_session
   = empty_session\<lparr>posted := [d],
        messages := [(ServerMessage (Some ''Internal Server Error''), Some Success)]\<rparr>"
  by (simp add: model_defs example_defs)

text \<open>
  By itself \<open>submit_digitized\<close> answers 401 with the message to log in and leaves the
  lines, the metadata and the flag \<open>data_saved\<close> alone; a failure of the network, a
  body that is no JSON and the body \<open>null\<close> are reported as errors.
\<close>

theorem submit_digitized_errors:
  "submit_digitized d (Response 401 b) s =
     s\<lparr>posted := posted s @ [d], messages := messages s @ [(NotLoggedIn, Some Error)]\<rparr>
   \<and> submit_digitized d NetworkFailure s =
     s\<lparr>posted := posted s @ [d], messages := messages s @ [(ErrorSubmitting, Some Error)]\<rparr>
   \<and> (status \<noteq> 401 \<longrightarrow>
          submit_digitized d (Response status NotJson) s =
            s\<lparr>posted := posted s @ [d], messages := messages s @ [(ErrorSubmitting, Some Error)]\<rparr>
        \<and> submit_digitized d (Response status JsonNull) s =
            s\<lparr>posted := posted s @ [d], messages := messages s @ [(ErrorSubmitting, Some Error)]\<rparr>)"
  by (simp add: submit_digitized_def user_message_def)

theorem submit_digitized_errors_witness:
  "data_saved (submit_digitized d (Response 401 NotJson) empty_session) = False
   \<and> drawn_items (submit_digitized d (Response 401 NotJson) empty_session) = []
   \<and> messages (submit_digitized d (Response 502 NotJson) empty_session) =
       [(ErrorSubmitting, Some Error)]"
  using submit_digitized_errors[of d NotJson empty_session 502]
  by (simp add: empty_session_def)

section \<open>Changing the kind of a line\<close>

text \<open>
  Claim C9. A kind that is no key of the registry is to be refused with the feature
  unchanged. \<open>change_layer_kind\<close> assigns \<open>properties.kind\<close> first and throws on
  reading \<open>class_props.color\<close>: for the kind \<open>undefined\<close> (a click on the colour
  patch inside a button of the popup gives \<open>event.target.key = undefined\<close>) and for
  the kind \<open>glacier\<close> the call throws, and the line keeps the colour and the name of a
  water table under the new kind.
\<close>

theorem change_layer_kind_unknown:
  "change_layer_kind (water_table_line 0 [pt 0 0, pt 5 0]) None
     = (Some TypeError,
        (water_table_line 0 [pt 0 0, pt 5 0])
          \<lparr>properties := Some (water_properties\<lparr>kind := None\<rparr>)\<rparr>)
   \<and> change_layer_kind (water_table_line 0 [pt 0 0, pt 5 0]) (Some ''glacier'')
     = (Some TypeError,
        (water_table_line 0 [pt 0 0, pt 5 0])
          \<lparr>properties := Some (water_properties\<lparr>kind := Some ''glacier''\<rparr>)\<rparr>)"
  by (simp add: model_defs example_defs)

text \<open>
  For a key of the registry \<open>change_layer_kind\<close> returns normally; kind, colour and name
  are those of the registry entry, and the vertices, the cached issues, the issue markers
  and the id are as before.
\<close>

theorem change_layer_kind_registered:
  assumes "class_lookup k = Some c"
  shows "\<exists>l'. change_layer_kind l k = (None, l') \<and> latlngs l' = latlngs l \<and>
     lid l' = lid l \<and> issue_markers l' = issue_markers l \<and> style_color l' = ccolor c \<and>
     map_option kind (properties l') = Some k \<and>
     map_option color (properties l') = Some (Some (ccolor c)) \<and>
     map_option name (properties l') = Some (Some (cname c)) \<and>
     map_option issues (properties l') =
       Some (case properties l of None \<Rightarrow> None | Some p \<Rightarrow> issues p)"
  using assms by (auto simp: change_layer_kind_def Let_def split: option.splits)

theorem change_layer_kind_registered_witness:
  "class_lookup (Some ''crevasse'') =
     Some \<lparr>cname = ''Crevasse'', ccolor = ''#62F700'', ckey = ''crevasse''\<rparr>
   \<and> (\<exists>l'. change_layer_kind (water_table_line 0 [pt 0 0, pt 5 0]) (Some ''crevasse'') = (None, l')
        \<and> latlngs l' = [pt 0 0, pt 5 0]
        \<and> map_option kind (properties l') = Some (Some ''crevasse'')
        \<and> map_option color (properties l') = Some (Some ''#62F700'')
        \<and> map_option name (properties l') = Some (Some ''Crevasse'')
        \<and> map_option issues (properties l') = Some (Some []))"
proof -
  have c: "class_lookup (Some ''crevasse'') =
     Some \<lparr>cname = ''Crevasse'', ccolor = ''#62F700'', ckey = ''crevasse''\<rparr>"
    by (simp add: class_lookup_def get_layer_classes_def)
  from change_layer_kind_registered[OF c, of "water_table_line 0 [pt 0 0, pt 5 0]"]
  obtain l' where
    "change_layer_kind (water_table_line 0 [pt 0 0, pt 5 0]) (Some ''crevasse'') = (None, l')"
    "latlngs l' = latlngs (water_table_line 0 [pt 0 0, pt 5 0])"
    "map_option kind (properties l') = Some (Some ''crevasse'')"
    "map_option color (properties l') = Some (Some ''#62F700'')"
    "map_option name (properties l') = Some (Some ''Crevasse'')"
    "map_option issues (properties l') =
       Some (case properties (water_table_line 0 [pt 0 0, pt 5 0]) of
               None \<Rightarrow> None | Some p \<Rightarrow> issues p)"
    by auto
  then have "change_layer_kind (water_table_line 0 [pt 0 0, pt 5 0]) (Some ''crevasse'') = (None, l')
        \<and> latlngs l' = [pt 0 0, pt 5 0]
        \<and> map_option kind (properties l') = Some (Some ''crevasse'')
        \<and> map_option color (properties l') = Some (Some ''#62F700'')
        \<and> map_option name (properties l') = Some (Some ''Crevasse'')
        \<and> map_option issues (properties l') = Some (Some [])"
    by (simp add: water_table_line_def)
  with c show ?thesis by blast
qed


end
